theory Spec2Isabelle
  imports Main "HOL-Library.Word" "HOL-Library.Log_Nat"
begin

section \<open>JavaScript strings\<close>

text \<open>
  A JavaScript string is a sequence of UTF-16 code units; \<open>.length\<close> counts code units,
  and a regular expression without the \<open>u\<close> flag works on code units too. The server
  (\<open>server/routes.ts\<close>, \<open>server/storage.ts\<close>, \<open>shared/schema.ts\<close>) only compares strings,
  takes their length and matches them against patterns, so a list of 16-bit words is the
  whole of the data type. \<open>js\<close> embeds an ASCII literal; a backslash cannot be written
  inside a HOL string literal and is spelled \<open>BSL\<close>.
\<close>

type_synonym code_unit = "16 word"
type_synonym jsstring = "code_unit list"

definition js :: "string \<Rightarrow> jsstring" where
  "js cs = map of_char cs"

abbreviation BSL :: code_unit where
  "BSL \<equiv> 0x5C"

text \<open>
  A code point beyond U+FFFF is a pair of code units, a high surrogate and a low one.
  A surrogate outside such a pair is a lone surrogate; \<open>to_well_formed\<close> puts U+FFFD in
  its place, as the UTF-8 encoder of the runtime does.
\<close>

definition is_high_surrogate :: "code_unit \<Rightarrow> bool" where
  "is_high_surrogate c = (0xD800 \<le> c \<and> c \<le> 0xDBFF)"

definition is_low_surrogate :: "code_unit \<Rightarrow> bool" where
  "is_low_surrogate c = (0xDC00 \<le> c \<and> c \<le> 0xDFFF)"

definition is_surrogate :: "code_unit \<Rightarrow> bool" where
  "is_surrogate c = (is_high_surrogate c \<or> is_low_surrogate c)"

fun to_well_formed :: "jsstring \<Rightarrow> jsstring" where
  "to_well_formed [] = []"
| "to_well_formed [c] = [if is_surrogate c then 0xFFFD else c]"
| "to_well_formed (c # d # cs) =
     (if is_high_surrogate c \<and> is_low_surrogate d then c # d # to_well_formed cs
      else (if is_surrogate c then 0xFFFD else c) # to_well_formed (d # cs))"

section \<open>The regular expressions of the serial formats\<close>

text \<open>
  \<open>routes.ts\<close> builds \<open>new RegExp(denominationData.serialFormat)\<close> (no flags) and calls
  \<open>.test(serialNumber)\<close>. The engine is the runtime's; it is modelled here for the
  fragment of ECMAScript pattern syntax that has no groups, alternation, back references
  or look-around: a pattern is a sequence of terms, each an assertion \<open>^\<close> or \<open>$\<close>, or a
  one-code-unit atom with an optional greedy quantifier. The atoms are a literal
  character, an escaped syntax character, \<open>.\<close>, the class escapes \<open>\d\<close>, \<open>\s\<close>, \<open>\w\<close>
  and a bracket class of characters and ranges. Every pattern of the seed data is in the
  fragment. \<open>RegExp\<close> parses a pattern of the fragment and returns \<open>None\<close> for any other
  pattern; what the runtime does with those is a parameter of \<open>new_RegExp\<close> below.
\<close>

datatype atom =
    Lit code_unit
  | Dot
  | Esc_d
  | Esc_s
  | Esc_w
  | Bracket "(code_unit \<times> code_unit) list"

datatype rterm =
    Assert_start
  | Assert_end
  | Repeat atom nat "nat option"

definition is_digit :: "code_unit \<Rightarrow> bool" where
  "is_digit c = (0x30 \<le> c \<and> c \<le> 0x39)"

definition is_line_terminator :: "code_unit \<Rightarrow> bool" where
  "is_line_terminator c = (c = 0x0A \<or> c = 0x0D \<or> c = 0x2028 \<or> c = 0x2029)"

text \<open>
  \<open>\s\<close> is WhiteSpace or LineTerminator of ECMA-262: TAB, VT, FF, SP, NBSP, ZWNBSP and
  the other characters of category Zs, and LF, CR, LS, PS.
\<close>

definition is_white_space :: "code_unit \<Rightarrow> bool" where
  "is_white_space c =
     (c = 0x09 \<or> c = 0x0B \<or> c = 0x0C \<or> c = 0x20 \<or> c = 0xA0 \<or> c = 0x1680
      \<or> (0x2000 \<le> c \<and> c \<le> 0x200A) \<or> c = 0x202F \<or> c = 0x205F \<or> c = 0x3000
      \<or> c = 0xFEFF \<or> is_line_terminator c)"

definition is_word_char :: "code_unit \<Rightarrow> bool" where
  "is_word_char c =
     ((0x41 \<le> c \<and> c \<le> 0x5A) \<or> (0x61 \<le> c \<and> c \<le> 0x7A) \<or> is_digit c \<or> c = 0x5F)"

fun atom_matches :: "atom \<Rightarrow> code_unit \<Rightarrow> bool" where
  "atom_matches (Lit d) c = (c = d)"
| "atom_matches Dot c = (\<not> is_line_terminator c)"
| "atom_matches Esc_d c = is_digit c"
| "atom_matches Esc_s c = is_white_space c"
| "atom_matches Esc_w c = is_word_char c"
| "atom_matches (Bracket rs) c = list_ex (\<lambda>(lo, hi). lo \<le> c \<and> c \<le> hi) rs"

subsection \<open>Parsing a pattern\<close>

text \<open>The syntax characters \<open>^ $ \ . * + ? ( ) [ ] { } |\<close>.\<close>

definition is_syntax_char :: "code_unit \<Rightarrow> bool" where
  "is_syntax_char c = (c \<in> set (js ''^$.*+?()[]{}|'') \<or> c = BSL)"

text \<open>
  The inside of a bracket class, after the opening bracket: single characters and ranges
  \<open>a-b\<close> up to the closing bracket. A backslash, a hyphen that is not the separator of
  a range, and a range out of order are outside the fragment.
\<close>

fun parse_class :: "jsstring \<Rightarrow> ((code_unit \<times> code_unit) list \<times> jsstring) option" where
  "parse_class [] = None"
| "parse_class (c # cs) =
     (if c = 0x5D then Some ([], cs)
      else if c = BSL \<or> c = 0x2D then None
      else (case cs of
              d # e # rest \<Rightarrow>
                if d = 0x2D then
                  (if e = 0x5D \<or> e = BSL \<or> e = 0x2D \<or> e < c then None
                   else (case parse_class rest of
                           None \<Rightarrow> None
                         | Some (rs, k) \<Rightarrow> Some ((c, e) # rs, k)))
                else (case parse_class cs of
                        None \<Rightarrow> None
                      | Some (rs, k) \<Rightarrow> Some ((c, c) # rs, k))
            | _ \<Rightarrow> (case parse_class cs of
                      None \<Rightarrow> None
                    | Some (rs, k) \<Rightarrow> Some ((c, c) # rs, k))))"

text \<open>One atom at the head of the pattern, and the rest of the pattern.\<close>

definition parse_atom :: "jsstring \<Rightarrow> (atom \<times> jsstring) option" where
  "parse_atom s =
     (case s of
        [] \<Rightarrow> None
      | c # cs \<Rightarrow>
          if c = BSL then
            (case cs of
               [] \<Rightarrow> None
             | e # rest \<Rightarrow>
                 if e = 0x64 then Some (Esc_d, rest)
                 else if e = 0x73 then Some (Esc_s, rest)
                 else if e = 0x77 then Some (Esc_w, rest)
                 else if is_syntax_char e then Some (Lit e, rest)
                 else None)
          else if c = 0x2E then Some (Dot, cs)
          else if c = 0x5B then
            (case cs of
               [] \<Rightarrow> None
             | e # rest \<Rightarrow>
                 if e = 0x5E then None
                 else (case parse_class cs of
                         None \<Rightarrow> None
                       | Some (rs, k) \<Rightarrow> Some (Bracket rs, k)))
          else if is_syntax_char c then None
          else Some (Lit c, cs))"

definition digit_value :: "code_unit \<Rightarrow> nat" where
  "digit_value c = unat c - 0x30"

definition decimal :: "jsstring \<Rightarrow> nat" where
  "decimal ds = foldl (\<lambda>n c. 10 * n + digit_value c) 0 ds"

text \<open>
  The bounds after an opening brace: \<open>n}\<close>, \<open>n,}\<close> or \<open>n,m}\<close> with \<open>n \<le> m\<close>.
\<close>

definition parse_braces :: "jsstring \<Rightarrow> ((nat \<times> nat option) \<times> jsstring) option" where
  "parse_braces s =
     (let ds = takeWhile is_digit s; r = dropWhile is_digit s in
      if ds = [] then None
      else (case r of
              [] \<Rightarrow> None
            | c # cs \<Rightarrow>
                if c = 0x7D then Some ((decimal ds, Some (decimal ds)), cs)
                else if c = 0x2C then
                  (let es = takeWhile is_digit cs; r' = dropWhile is_digit cs in
                   case r' of
                     [] \<Rightarrow> None
                   | c' # cs' \<Rightarrow>
                       if c' \<noteq> 0x7D then None
                       else if es = [] then Some ((decimal ds, None), cs')
                       else if decimal es < decimal ds then None
                       else Some ((decimal ds, Some (decimal es)), cs'))
                else None))"

text \<open>
  The quantifier that may follow an atom: \<open>*\<close>, \<open>+\<close>, \<open>?\<close> or braces; an atom without
  one is matched exactly once. A lazy quantifier (a quantifier followed by \<open>?\<close>) is
  outside the fragment.
\<close>

definition parse_quantifier :: "jsstring \<Rightarrow> ((nat \<times> nat option) \<times> jsstring) option" where
  "parse_quantifier s =
     (let q = (case s of
                 [] \<Rightarrow> Some ((1, Some 1), s)
               | c # cs \<Rightarrow>
                   if c = 0x2A then Some ((0, None), cs)
                   else if c = 0x2B then Some ((1, None), cs)
                   else if c = 0x3F then Some ((0, Some 1), cs)
                   else if c = 0x7B then parse_braces cs
                   else Some ((1, Some 1), s))
      in case q of
           None \<Rightarrow> None
         | Some (b, r) \<Rightarrow>
             if length r < length s \<and> r \<noteq> [] \<and> hd r = 0x3F then None else Some (b, r))"

declare parse_class.simps [simp del]

lemma parse_class_shorter:
  "parse_class s = Some (rs, k) \<Longrightarrow> length k < length s"
proof (induction "length s" arbitrary: s rs k rule: less_induct)
  case less
  from less.prems obtain c cs where s: "s = c # cs"
    by (cases s) (simp_all add: parse_class.simps)
  from less.prems have
    "k = cs \<or> (\<exists>rs'. parse_class cs = Some (rs', k))
      \<or> (\<exists>rs'. parse_class (tl (tl cs)) = Some (rs', k))"
    unfolding s
    by (subst (asm) parse_class.simps)
       (auto split: if_splits list.splits option.splits)
  then consider (close) "k = cs"
    | (one) rs' where "parse_class cs = Some (rs', k)"
    | (range) rs' where "parse_class (tl (tl cs)) = Some (rs', k)"
    by blast
  then show ?case
  proof cases
    case close
    then show ?thesis by (simp add: s)
  next
    case one
    have "length cs < length s" by (simp add: s)
    from less.hyps [OF this one] show ?thesis by (simp add: s)
  next
    case range
    have "length (tl (tl cs)) < length s" by (simp add: s)
    from less.hyps [OF this range] show ?thesis by (simp add: s)
  qed
qed

lemma parse_atom_shorter:
  "parse_atom s = Some (a, k) \<Longrightarrow> length k < length s"
  unfolding parse_atom_def
  by (auto split: list.splits if_splits option.splits dest: parse_class_shorter)

lemma parse_braces_shorter:
  "parse_braces s = Some (b, k) \<Longrightarrow> length k < length s"
proof -
  assume a: "parse_braces s = Some (b, k)"
  have l1: "length (dropWhile is_digit s) \<le> length s"
    by (rule length_dropWhile_le)
  show ?thesis
  proof (cases "dropWhile is_digit s")
    case Nil
    with a show ?thesis by (simp add: parse_braces_def Let_def split: if_splits)
  next
    case (Cons c cs)
    have l2: "length (dropWhile is_digit cs) \<le> length cs"
      by (rule length_dropWhile_le)
    from Cons l1 have l3: "length cs < length s" by simp
    from a Cons l2 l3 show ?thesis
      by (auto simp: parse_braces_def Let_def split: if_splits list.splits)
  qed
qed

lemma parse_quantifier_not_longer:
  "parse_quantifier s = Some (b, k) \<Longrightarrow> length k \<le> length s"
  unfolding parse_quantifier_def Let_def
  by (auto split: list.splits if_splits option.splits dest: parse_braces_shorter)

function parse_terms :: "jsstring \<Rightarrow> rterm list option" where
  "parse_terms [] = Some []"
| "parse_terms (c # cs) =
     (if c = 0x5E then map_option (Cons Assert_start) (parse_terms cs)
      else if c = 0x24 then map_option (Cons Assert_end) (parse_terms cs)
      else (case parse_atom (c # cs) of
              None \<Rightarrow> None
            | Some (a, r) \<Rightarrow>
                (case parse_quantifier r of
                   None \<Rightarrow> None
                 | Some ((lo, hi), r') \<Rightarrow>
                     map_option (Cons (Repeat a lo hi)) (parse_terms r'))))"
  by pat_completeness auto
termination
proof (relation "measure length")
  show "wf (measure length)" by simp
next
  fix c :: code_unit and cs :: jsstring
  show "(cs, c # cs) \<in> measure length" by simp
next
  fix c :: code_unit and cs :: jsstring
  show "(cs, c # cs) \<in> measure length" by simp
next
  fix c :: code_unit and cs r r' :: jsstring and a x2 x y lo hi
  assume "parse_atom (c # cs) = Some x2" and "(a, r) = x2"
    and "parse_quantifier r = Some y" and "(x, r') = y"
  then have "length r < length (c # cs)" and "length r' \<le> length r"
    by (auto dest: parse_atom_shorter parse_quantifier_not_longer)
  then show "(r', c # cs) \<in> measure length" by simp
qed

definition RegExp :: "jsstring \<Rightarrow> rterm list option" where
  "RegExp src = parse_terms src"

subsection \<open>Matching\<close>

text \<open>
  The matcher gives, for a term list, the input and a start index, the end indices of
  all the matches that start there, in the order in which the backtracking engine tries
  them (a greedy quantifier tries the longest repetition first). In this fragment no
  term looks at what another one matched, so a match exists exactly if the list is not
  empty. Without the \<open>m\<close> flag \<open>^\<close> holds only at index 0 and \<open>$\<close> only at the end of the
  input.
\<close>

definition run_length :: "atom \<Rightarrow> jsstring \<Rightarrow> nat \<Rightarrow> nat" where
  "run_length a s i = length (takeWhile (atom_matches a) (drop i s))"

fun match_term :: "rterm \<Rightarrow> jsstring \<Rightarrow> nat \<Rightarrow> nat list" where
  "match_term Assert_start s i = (if i = 0 then [i] else [])"
| "match_term Assert_end s i = (if i = length s then [i] else [])"
| "match_term (Repeat a lo hi) s i =
     (let r = run_length a s i;
          top = (case hi of None \<Rightarrow> r | Some h \<Rightarrow> min h r)
      in map (\<lambda>k. i + k) (rev [lo ..< Suc top]))"

fun match_terms :: "rterm list \<Rightarrow> jsstring \<Rightarrow> nat \<Rightarrow> nat list" where
  "match_terms [] s i = [i]"
| "match_terms (t # ts) s i = concat (map (match_terms ts s) (match_term t s i))"

text \<open>
  \<open>RegExp.prototype.test\<close> on a regular expression that is neither global nor sticky:
  the search starts at index 0 and tries every start index up to the length of the input.
\<close>

definition regexp_test :: "rterm list \<Rightarrow> jsstring \<Rightarrow> bool" where
  "regexp_test re s = list_ex (\<lambda>i. match_terms re s i \<noteq> []) [0 ..< Suc (length s)]"

text \<open>
  A whole-string match, for comparison with \<open>regexp_test\<close>: a match that starts at index
  0 and ends at the end of the input.
\<close>

definition matches_whole :: "rterm list \<Rightarrow> jsstring \<Rightarrow> bool" where
  "matches_whole re s = (length s \<in> set (match_terms re s 0))"

subsection \<open>\<open>new RegExp\<close>\<close>

text \<open>
  The handler calls nothing but \<open>test\<close> on the regular expression it builds, so a regular
  expression is its test function. For a pattern of the fragment the matcher above is
  the engine. For every other pattern the runtime either throws a SyntaxError (\<open>None\<close>)
  or builds a regular expression; which, and what that one accepts, is the parameter
  \<open>other\<close>.
\<close>

type_synonym regexp = "jsstring \<Rightarrow> bool"
type_synonym other_patterns = "jsstring \<Rightarrow> regexp option"

definition new_RegExp :: "other_patterns \<Rightarrow> jsstring \<Rightarrow> regexp option" where
  "new_RegExp other src =
     (case RegExp src of
        Some re \<Rightarrow> Some (regexp_test re)
      | None \<Rightarrow> other src)"

section \<open>JavaScript numbers\<close>

text \<open>
  A JavaScript number is an IEEE 754 binary64 value. \<open>getVerificationStats\<close> divides and
  multiplies numbers, so the rounding of each operation is written out: \<open>fl\<close> rounds a
  rational to the nearest number with a 53-bit significand, ties to the even significand.
  Only finite values in the normal range occur here (counts of rows and percentages), so
  infinities, NaN, signed zeros, subnormal numbers and overflow are left out. A count of
  rows is an integer below \<open>2 ^ 53\<close> and is a number as it stands.
\<close>

definition pow2 :: "int \<Rightarrow> rat" where
  "pow2 e = (if 0 \<le> e then 2 ^ nat e else 1 / 2 ^ nat (- e))"

definition round_half_even :: "rat \<Rightarrow> int" where
  "round_half_even x =
     (let f = \<lfloor>x\<rfloor>; d = x - of_int f in
      if d < 1 / 2 then f
      else if 1 / 2 < d then f + 1
      else if even f then f else f + 1)"

text \<open>The exponent \<open>e\<close> of the unit in the last place: \<open>2 ^ 52 \<le> \<bar>x\<bar> / 2 ^ e < 2 ^ 53\<close>.\<close>

definition ulp_exponent :: "rat \<Rightarrow> int" where
  "ulp_exponent x =
     (let (p, q) = quotient_of \<bar>x\<bar>;
          e = bitlen p - bitlen q - 53
      in if 2 ^ 53 \<le> \<bar>x\<bar> / pow2 e then e + 1 else e)"

definition fl :: "rat \<Rightarrow> rat" where
  "fl x =
     (if x = 0 then 0
      else (let e = ulp_exponent x in of_int (round_half_even (x / pow2 e)) * pow2 e))"

definition num_div :: "rat \<Rightarrow> rat \<Rightarrow> rat" where
  "num_div a b = fl (a / b)"

definition num_mul :: "rat \<Rightarrow> rat \<Rightarrow> rat" where
  "num_mul a b = fl (a * b)"

text \<open>
  \<open>Math.round\<close> gives the nearest integer, and of two equally near ones the larger; the
  result is exact.
\<close>

definition Math_round :: "rat \<Rightarrow> rat" where
  "Math_round x = of_int \<lfloor>x + 1 / 2\<rfloor>"

section \<open>The tables of \<open>shared/schema.ts\<close>\<close>

record Country =
  c_id :: int
  c_code :: jsstring
  c_name :: jsstring
  c_currency :: jsstring
  c_currencySymbol :: jsstring

record Denomination =
  d_id :: int
  d_countryId :: int
  d_value :: jsstring
  d_displayName :: jsstring
  d_serialFormat :: jsstring
  d_serialLength :: int
  d_patternDescription :: jsstring
  d_isActive :: bool

record VerificationLog =
  l_id :: int
  l_countryId :: int
  l_denominationId :: int
  l_serialNumber :: jsstring
  l_isAuthentic :: bool
  l_formatValid :: bool
  l_lengthValid :: bool
  l_timestamp :: nat

text \<open>The insert types leave out the generated columns; \<open>isActive\<close> has a default.\<close>

record InsertCountry =
  ic_code :: jsstring
  ic_name :: jsstring
  ic_currency :: jsstring
  ic_currencySymbol :: jsstring

record InsertDenomination =
  idn_countryId :: int
  idn_value :: jsstring
  idn_displayName :: jsstring
  idn_serialFormat :: jsstring
  idn_serialLength :: int
  idn_patternDescription :: jsstring
  idn_isActive :: "bool option"

record InsertVerificationLog =
  il_countryId :: int
  il_denominationId :: int
  il_serialNumber :: jsstring
  il_isAuthentic :: bool
  il_formatValid :: bool
  il_lengthValid :: bool

text \<open>
  The database: the rows of each table in the order of insertion, and the last value of
  each \<open>serial\<close> sequence. The operations below are those of \<open>DatabaseStorage\<close>, on a
  database that is up. The driver sends a string parameter as UTF-8 text, which turns a
  lone surrogate into U+FFFD, and the database rejects text that contains U+0000: the
  query then throws, which is the error \<open>Invalid_byte_sequence\<close>. The operations that a
  request reaches with a string of its own can fail in this way. \<open>createCountry\<close> and
  \<open>createDenomination\<close> are called by \<open>seedInitialData\<close> alone, on rows that the database
  stores as they are.
\<close>

record store =
  countries :: "Country list"
  denominations :: "Denomination list"
  verificationLogs :: "VerificationLog list"
  countries_id_seq :: int
  denominations_id_seq :: int
  verification_logs_id_seq :: int

section \<open>\<open>DatabaseStorage\<close>\<close>

definition getCountries :: "store \<Rightarrow> Country list" where
  "getCountries st = countries st"

datatype db_error = Invalid_byte_sequence

definition pg_text :: "jsstring \<Rightarrow> db_error + jsstring" where
  "pg_text s = (if 0 \<in> set s then Inl Invalid_byte_sequence else Inr (to_well_formed s))"

definition getCountryByCode :: "store \<Rightarrow> jsstring \<Rightarrow> db_error + Country option" where
  "getCountryByCode st code =
     (case pg_text code of
        Inl e \<Rightarrow> Inl e
      | Inr code' \<Rightarrow>
          Inr (case filter (\<lambda>c. c_code c = code') (countries st) of
                 [] \<Rightarrow> None
               | country # _ \<Rightarrow> Some country))"

definition createCountry :: "store \<Rightarrow> InsertCountry \<Rightarrow> Country \<times> store" where
  "createCountry st insertCountry =
     (let country = \<lparr>c_id = countries_id_seq st + 1,
                      c_code = ic_code insertCountry,
                      c_name = ic_name insertCountry,
                      c_currency = ic_currency insertCountry,
                      c_currencySymbol = ic_currencySymbol insertCountry\<rparr>
      in (country, st\<lparr>countries := countries st @ [country],
                       countries_id_seq := countries_id_seq st + 1\<rparr>))"

definition getDenominationsByCountry :: "store \<Rightarrow> int \<Rightarrow> Denomination list" where
  "getDenominationsByCountry st countryId =
     filter (\<lambda>d. d_countryId d = countryId) (denominations st)"

definition getDenomination ::
  "store \<Rightarrow> int \<Rightarrow> jsstring \<Rightarrow> db_error + Denomination option" where
  "getDenomination st countryId v =
     (case pg_text v of
        Inl e \<Rightarrow> Inl e
      | Inr v' \<Rightarrow>
          Inr (case filter (\<lambda>d. d_countryId d = countryId \<and> d_value d = v')
                      (denominations st) of
                 [] \<Rightarrow> None
               | denomination # _ \<Rightarrow> Some denomination))"

definition createDenomination :: "store \<Rightarrow> InsertDenomination \<Rightarrow> Denomination \<times> store" where
  "createDenomination st insertDenomination =
     (let denomination =
            \<lparr>d_id = denominations_id_seq st + 1,
             d_countryId = idn_countryId insertDenomination,
             d_value = idn_value insertDenomination,
             d_displayName = idn_displayName insertDenomination,
             d_serialFormat = idn_serialFormat insertDenomination,
             d_serialLength = idn_serialLength insertDenomination,
             d_patternDescription = idn_patternDescription insertDenomination,
             d_isActive = (case idn_isActive insertDenomination of
                             None \<Rightarrow> True | Some b \<Rightarrow> b)\<rparr>
      in (denomination, st\<lparr>denominations := denominations st @ [denomination],
                            denominations_id_seq := denominations_id_seq st + 1\<rparr>))"

text \<open>
  The column \<open>timestamp\<close> defaults to the database's clock, read at the insert. An insert
  that the database rejects stores no row and takes no value from the sequence.
\<close>

definition createVerificationLog ::
  "store \<Rightarrow> nat \<Rightarrow> InsertVerificationLog \<Rightarrow> db_error + VerificationLog \<times> store" where
  "createVerificationLog st now insertLog =
     (case pg_text (il_serialNumber insertLog) of
        Inl e \<Rightarrow> Inl e
      | Inr serialNumber \<Rightarrow>
          (let log = \<lparr>l_id = verification_logs_id_seq st + 1,
                       l_countryId = il_countryId insertLog,
                       l_denominationId = il_denominationId insertLog,
                       l_serialNumber = serialNumber,
                       l_isAuthentic = il_isAuthentic insertLog,
                       l_formatValid = il_formatValid insertLog,
                       l_lengthValid = il_lengthValid insertLog,
                       l_timestamp = now\<rparr>
           in Inr (log, st\<lparr>verificationLogs := verificationLogs st @ [log],
                            verification_logs_id_seq := verification_logs_id_seq st + 1\<rparr>)))"

record Stats =
  totalVerified :: int
  authentic :: int
  suspicious :: int
  successRate :: rat

definition getVerificationStats :: "store \<Rightarrow> Stats" where
  "getVerificationStats st =
     (let logs = verificationLogs st;
          totalVerified = int (length logs);
          authentic = int (length (filter l_isAuthentic logs));
          suspicious = totalVerified - authentic;
          successRate = (if totalVerified > 0
                         then num_mul (num_div (of_int authentic) (of_int totalVerified)) 100
                         else 0)
      in \<lparr>totalVerified = totalVerified,
          authentic = authentic,
          suspicious = suspicious,
          successRate = num_div (Math_round (num_mul successRate 10)) 10\<rparr>)"

section \<open>The request body and its schema\<close>

text \<open>
  The body of a request as the JSON middleware leaves it. The schema
  \<open>verifyBanknoteSchema\<close> only tells objects from other values and strings from other
  values, so numbers, booleans, null and arrays are one constructor. An object is the
  list of its properties; a property that is absent reads as \<open>undefined\<close>.
\<close>

datatype jsvalue =
    JUndefined
  | JString jsstring
  | JOther
  | JObject "(jsstring \<times> jsvalue) list"

definition property :: "(jsstring \<times> jsvalue) list \<Rightarrow> jsstring \<Rightarrow> jsvalue" where
  "property ps k = (case map_of ps k of None \<Rightarrow> JUndefined | Some v \<Rightarrow> v)"

text \<open>\<open>z.string()\<close> with its \<open>min\<close> and \<open>max\<close> checks, which compare \<open>.length\<close>.\<close>

definition z_string :: "nat \<Rightarrow> nat option \<Rightarrow> jsvalue \<Rightarrow> jsstring option" where
  "z_string lo hi v =
     (case v of
        JString s \<Rightarrow>
          if lo \<le> length s \<and> (case hi of None \<Rightarrow> True | Some h \<Rightarrow> length s \<le> h)
          then Some s else None
      | _ \<Rightarrow> None)"

text \<open>
  \<open>verifyBanknoteSchema.parse\<close>: \<open>None\<close> is the \<open>ZodError\<close> it throws. Zod checks every
  field before it throws, which only shows in the detail of the error.
\<close>

definition verifyBanknoteSchema_parse :: "jsvalue \<Rightarrow> (jsstring \<times> jsstring \<times> jsstring) option" where
  "verifyBanknoteSchema_parse body =
     (case body of
        JObject ps \<Rightarrow>
          (case (z_string 2 (Some 3) (property ps (js ''countryCode'')),
                 z_string 1 None (property ps (js ''denomination'')),
                 z_string 1 (Some 20) (property ps (js ''serialNumber''))) of
             (Some countryCode, Some denomination, Some serialNumber) \<Rightarrow>
               Some (countryCode, denomination, serialNumber)
           | _ \<Rightarrow> None)
      | _ \<Rightarrow> None)"

section \<open>\<open>POST /api/verify\<close>\<close>

text \<open>
  Lines 54 to 60 of \<open>routes.ts\<close>: the check of a serial number against the rule of a
  denomination. \<open>None\<close> is the SyntaxError that \<open>new RegExp\<close> throws.
\<close>

record Verdict =
  formatValid :: bool
  lengthValid :: bool
  isAuthentic :: bool

definition checkSerial :: "other_patterns \<Rightarrow> Denomination \<Rightarrow> jsstring \<Rightarrow> Verdict option" where
  "checkSerial other denominationData serialNumber =
     (case new_RegExp other (d_serialFormat denominationData) of
        None \<Rightarrow> None
      | Some serialRegex \<Rightarrow>
          (let formatValid = serialRegex serialNumber;
               lengthValid = (int (length serialNumber) = d_serialLength denominationData);
               isAuthentic = (formatValid \<and> lengthValid)
           in Some \<lparr>formatValid = formatValid,
                     lengthValid = lengthValid,
                     isAuthentic = isAuthentic\<rparr>))"

record VerifyResponse =
  r_country :: jsstring
  r_currency :: jsstring
  r_denomination :: jsstring
  r_serialNumber :: jsstring
  r_formatValid :: bool
  r_lengthValid :: bool
  r_isAuthentic :: bool
  r_patternDescription :: jsstring
  r_timestamp :: nat

datatype response =
    Json VerifyResponse
  | Status nat jsstring

text \<open>The calls a handler makes on the storage, in order.\<close>

datatype storage_call =
    Call_getCountryByCode jsstring
  | Call_getDenomination int jsstring
  | Call_createVerificationLog InsertVerificationLog

text \<open>
  The handler takes what the runtime does with patterns outside the fragment, the
  database, the reading of the database's clock at the insert, the reading of the
  server's clock at the response, and the body; it gives the response, the database
  afterwards and the storage calls made. A \<open>ZodError\<close> is answered with 400; anything
  else that is thrown (by a storage call or by \<open>new RegExp\<close>) is caught and answered with
  500. The response's timestamp is kept as the clock reading (its ISO 8601 text is not
  modelled), and the 400 response is kept without the list of Zod issues.
\<close>

definition post_api_verify ::
  "other_patterns \<Rightarrow> store \<Rightarrow> nat \<Rightarrow> nat \<Rightarrow> jsvalue
     \<Rightarrow> response \<times> store \<times> storage_call list" where
  "post_api_verify other st db_now js_now body =
     (case verifyBanknoteSchema_parse body of
        None \<Rightarrow> (Status 400 (js ''Invalid request data''), st, [])
      | Some (countryCode, denomination, serialNumber) \<Rightarrow>
          (case getCountryByCode st countryCode of
             Inl e \<Rightarrow>
               (Status 500 (js ''Verification failed''), st,
                [Call_getCountryByCode countryCode])
           | Inr None \<Rightarrow>
               (Status 404 (js ''Country not found''), st,
                [Call_getCountryByCode countryCode])
           | Inr (Some country) \<Rightarrow>
               (case getDenomination st (c_id country) denomination of
                  Inl e \<Rightarrow>
                    (Status 500 (js ''Verification failed''), st,
                     [Call_getCountryByCode countryCode,
                      Call_getDenomination (c_id country) denomination])
                | Inr None \<Rightarrow>
                    (Status 404 (js ''Denomination not found''), st,
                     [Call_getCountryByCode countryCode,
                      Call_getDenomination (c_id country) denomination])
                | Inr (Some denominationData) \<Rightarrow>
                    (case checkSerial other denominationData serialNumber of
                       None \<Rightarrow>
                         (Status 500 (js ''Verification failed''), st,
                          [Call_getCountryByCode countryCode,
                           Call_getDenomination (c_id country) denomination])
                     | Some v \<Rightarrow>
                         (let insertLog =
                                \<lparr>il_countryId = c_id country,
                                 il_denominationId = d_id denominationData,
                                 il_serialNumber = serialNumber,
                                 il_isAuthentic = isAuthentic v,
                                 il_formatValid = formatValid v,
                                 il_lengthValid = lengthValid v\<rparr>
                          in case createVerificationLog st db_now insertLog of
                               Inl e \<Rightarrow>
                                 (Status 500 (js ''Verification failed''), st,
                                  [Call_getCountryByCode countryCode,
                                   Call_getDenomination (c_id country) denomination,
                                   Call_createVerificationLog insertLog])
                             | Inr (row, st') \<Rightarrow>
                                 (Json \<lparr>r_country = c_name country,
                                        r_currency = c_currency country,
                                        r_denomination = d_displayName denominationData,
                                        r_serialNumber = serialNumber,
                                        r_formatValid = formatValid v,
                                        r_lengthValid = lengthValid v,
                                        r_isAuthentic = isAuthentic v,
                                        r_patternDescription =
                                          d_patternDescription denominationData,
                                        r_timestamp = js_now\<rparr>,
                                  st',
                                  [Call_getCountryByCode countryCode,
                                   Call_getDenomination (c_id country) denomination,
                                   Call_createVerificationLog insertLog]))))))"

section \<open>\<open>seedInitialData\<close>\<close>

definition country_row :: "jsstring \<Rightarrow> jsstring \<Rightarrow> jsstring \<Rightarrow> jsstring \<Rightarrow> InsertCountry" where
  "country_row code name currency currencySymbol =
     \<lparr>ic_code = code, ic_name = name, ic_currency = currency,
      ic_currencySymbol = currencySymbol\<rparr>"

definition countryData :: "InsertCountry list" where
  "countryData =
    [country_row (js ''US'') (js ''United States'') (js ''USD'') (js ''$''),
     country_row (js ''UK'') (js ''United Kingdom'') (js ''GBP'') ([0xA3]),
     country_row (js ''EU'') (js ''European Union'') (js ''EUR'') ([0x20AC]),
     country_row (js ''JP'') (js ''Japan'') (js ''JPY'') ([0xA5]),
     country_row (js ''CA'') (js ''Canada'') (js ''CAD'') (js ''C$''),
     country_row (js ''AU'') (js ''Australia'') (js ''AUD'') (js ''A$''),
     country_row (js ''CH'') (js ''Switzerland'') (js ''CHF'') (js ''CHF''),
     country_row (js ''CN'') (js ''China'') (js ''CNY'') ([0xA5]),
     country_row (js ''IN'') (js ''India'') (js ''INR'') ([0x20B9]),
     country_row (js ''KR'') (js ''South Korea'') (js ''KRW'') ([0x20A9]),
     country_row (js ''SG'') (js ''Singapore'') (js ''SGD'') (js ''S$''),
     country_row (js ''HK'') (js ''Hong Kong'') (js ''HKD'') (js ''HK$''),
     country_row (js ''NO'') (js ''Norway'') (js ''NOK'') (js ''kr''),
     country_row (js ''SE'') (js ''Sweden'') (js ''SEK'') (js ''kr''),
     country_row (js ''DK'') (js ''Denmark'') (js ''DKK'') (js ''kr''),
     country_row (js ''NZ'') (js ''New Zealand'') (js ''NZD'') (js ''NZ$''),
     country_row (js ''RU'') (js ''Russia'') (js ''RUB'') ([0x20BD]),
     country_row (js ''BR'') (js ''Brazil'') (js ''BRL'') (js ''R$''),
     country_row (js ''MX'') (js ''Mexico'') (js ''MXN'') (js ''$''),
     country_row (js ''SA'') (js ''South Africa'') (js ''ZAR'') (js ''R''),
     country_row (js ''LK'') (js ''Sri Lanka'') (js ''LKR'') (js ''Rs''),
     country_row (js ''MY'') (js ''Malaysia'') (js ''MYR'') (js ''RM''),
     country_row (js ''TH'') (js ''Thailand'') (js ''THB'') ([0xE3F]),
     country_row (js ''ID'') (js ''Indonesia'') (js ''IDR'') (js ''Rp''),
     country_row (js ''PH'') (js ''Philippines'') (js ''PHP'') ([0x20B1])]"

definition denomination_row ::
  "int \<Rightarrow> jsstring \<Rightarrow> jsstring \<Rightarrow> jsstring \<Rightarrow> int \<Rightarrow> jsstring \<Rightarrow> InsertDenomination" where
  "denomination_row countryId v displayName serialFormat serialLength patternDescription =
     \<lparr>idn_countryId = countryId, idn_value = v, idn_displayName = displayName,
      idn_serialFormat = serialFormat, idn_serialLength = serialLength,
      idn_patternDescription = patternDescription, idn_isActive = None\<rparr>"

text \<open>
  The rows refer to the created countries by position; the list has 25 entries when the
  rows are built, so every index is in range.
\<close>

definition denominationData :: "Country list \<Rightarrow> InsertDenomination list" where
  "denominationData createdCountries =
    [denomination_row (c_id (createdCountries ! 0)) (js ''1'') (js ''$1'')
       (js ''^[A-L]'' @ BSL # js ''d{8}[A-Z]$'') 10
       (js ''Letter + 8 digits + Letter''),
     denomination_row (c_id (createdCountries ! 0)) (js ''2'') (js ''$2'')
       (js ''^[A-L]'' @ BSL # js ''d{8}[A-Z]$'') 10
       (js ''Letter + 8 digits + Letter''),
     denomination_row (c_id (createdCountries ! 0)) (js ''5'') (js ''$5'')
       (js ''^[A-L]'' @ BSL # js ''d{8}[A-Z]$'') 10
       (js ''Letter + 8 digits + Letter''),
     denomination_row (c_id (createdCountries ! 0)) (js ''10'') (js ''$10'')
       (js ''^[A-L]'' @ BSL # js ''d{8}[A-Z]$'') 10
       (js ''Letter + 8 digits + Letter''),
     denomination_row (c_id (createdCountries ! 0)) (js ''20'') (js ''$20'')
       (js ''^[A-L]'' @ BSL # js ''d{8}[A-Z]$'') 10
       (js ''Letter + 8 digits + Letter''),
     denomination_row (c_id (createdCountries ! 0)) (js ''50'') (js ''$50'')
       (js ''^[A-L]'' @ BSL # js ''d{8}[A-Z]$'') 10
       (js ''Letter + 8 digits + Letter''),
     denomination_row (c_id (createdCountries ! 0)) (js ''100'') (js ''$100'')
       (js ''^[A-L]'' @ BSL # js ''d{8}[A-Z]$'') 10
       (js ''Letter + 8 digits + Letter''),
     denomination_row (c_id (createdCountries ! 1)) (js ''5'') (0xA3 # js ''5'')
       (js ''^[A-Z]{2}'' @ BSL # js ''d{2}'' @ BSL # js ''s'' @ BSL # js ''d{6}$'') 11
       (js ''2 Letters + 2 digits + space + 6 digits''),
     denomination_row (c_id (createdCountries ! 1)) (js ''10'') (0xA3 # js ''10'')
       (js ''^[A-Z]{2}'' @ BSL # js ''d{2}'' @ BSL # js ''s'' @ BSL # js ''d{6}$'') 11
       (js ''2 Letters + 2 digits + space + 6 digits''),
     denomination_row (c_id (createdCountries ! 1)) (js ''20'') (0xA3 # js ''20'')
       (js ''^[A-Z]{2}'' @ BSL # js ''d{2}'' @ BSL # js ''s'' @ BSL # js ''d{6}$'') 11
       (js ''2 Letters + 2 digits + space + 6 digits''),
     denomination_row (c_id (createdCountries ! 1)) (js ''50'') (0xA3 # js ''50'')
       (js ''^[A-Z]{2}'' @ BSL # js ''d{2}'' @ BSL # js ''s'' @ BSL # js ''d{6}$'') 11
       (js ''2 Letters + 2 digits + space + 6 digits''),
     denomination_row (c_id (createdCountries ! 2)) (js ''5'') (0x20AC # js ''5'')
       (js ''^[A-Z]'' @ BSL # js ''d{11}$'') 12
       (js ''Letter + 11 digits''),
     denomination_row (c_id (createdCountries ! 2)) (js ''10'') (0x20AC # js ''10'')
       (js ''^[A-Z]'' @ BSL # js ''d{11}$'') 12
       (js ''Letter + 11 digits''),
     denomination_row (c_id (createdCountries ! 2)) (js ''20'') (0x20AC # js ''20'')
       (js ''^[A-Z]'' @ BSL # js ''d{11}$'') 12
       (js ''Letter + 11 digits''),
     denomination_row (c_id (createdCountries ! 2)) (js ''50'') (0x20AC # js ''50'')
       (js ''^[A-Z]'' @ BSL # js ''d{11}$'') 12
       (js ''Letter + 11 digits''),
     denomination_row (c_id (createdCountries ! 2)) (js ''100'') (0x20AC # js ''100'')
       (js ''^[A-Z]'' @ BSL # js ''d{11}$'') 12
       (js ''Letter + 11 digits''),
     denomination_row (c_id (createdCountries ! 2)) (js ''200'') (0x20AC # js ''200'')
       (js ''^[A-Z]'' @ BSL # js ''d{11}$'') 12
       (js ''Letter + 11 digits''),
     denomination_row (c_id (createdCountries ! 2)) (js ''500'') (0x20AC # js ''500'')
       (js ''^[A-Z]'' @ BSL # js ''d{11}$'') 12
       (js ''Letter + 11 digits''),
     denomination_row (c_id (createdCountries ! 3)) (js ''1000'') (0xA5 # js ''1000'')
       (js ''^[A-Z]'' @ BSL # js ''d{6}[A-Z]$'') 8
       (js ''Letter + 6 digits + Letter''),
     denomination_row (c_id (createdCountries ! 3)) (js ''2000'') (0xA5 # js ''2000'')
       (js ''^[A-Z]'' @ BSL # js ''d{6}[A-Z]$'') 8
       (js ''Letter + 6 digits + Letter''),
     denomination_row (c_id (createdCountries ! 3)) (js ''5000'') (0xA5 # js ''5000'')
       (js ''^[A-Z]'' @ BSL # js ''d{6}[A-Z]$'') 8
       (js ''Letter + 6 digits + Letter''),
     denomination_row (c_id (createdCountries ! 3)) (js ''10000'') (0xA5 # js ''10000'')
       (js ''^[A-Z]'' @ BSL # js ''d{6}[A-Z]$'') 8
       (js ''Letter + 6 digits + Letter''),
     denomination_row (c_id (createdCountries ! 4)) (js ''5'') (js ''C$5'')
       (js ''^[A-Z]{3}'' @ BSL # js ''d{7}$'') 10
       (js ''3 Letters + 7 digits''),
     denomination_row (c_id (createdCountries ! 4)) (js ''10'') (js ''C$10'')
       (js ''^[A-Z]{3}'' @ BSL # js ''d{7}$'') 10
       (js ''3 Letters + 7 digits''),
     denomination_row (c_id (createdCountries ! 4)) (js ''20'') (js ''C$20'')
       (js ''^[A-Z]{3}'' @ BSL # js ''d{7}$'') 10
       (js ''3 Letters + 7 digits''),
     denomination_row (c_id (createdCountries ! 4)) (js ''50'') (js ''C$50'')
       (js ''^[A-Z]{3}'' @ BSL # js ''d{7}$'') 10
       (js ''3 Letters + 7 digits''),
     denomination_row (c_id (createdCountries ! 4)) (js ''100'') (js ''C$100'')
       (js ''^[A-Z]{3}'' @ BSL # js ''d{7}$'') 10
       (js ''3 Letters + 7 digits''),
     denomination_row (c_id (createdCountries ! 5)) (js ''5'') (js ''A$5'')
       (js ''^[A-Z]{2}'' @ BSL # js ''d{8}$'') 10
       (js ''2 Letters + 8 digits''),
     denomination_row (c_id (createdCountries ! 5)) (js ''10'') (js ''A$10'')
       (js ''^[A-Z]{2}'' @ BSL # js ''d{8}$'') 10
       (js ''2 Letters + 8 digits''),
     denomination_row (c_id (createdCountries ! 5)) (js ''20'') (js ''A$20'')
       (js ''^[A-Z]{2}'' @ BSL # js ''d{8}$'') 10
       (js ''2 Letters + 8 digits''),
     denomination_row (c_id (createdCountries ! 5)) (js ''50'') (js ''A$50'')
       (js ''^[A-Z]{2}'' @ BSL # js ''d{8}$'') 10
       (js ''2 Letters + 8 digits''),
     denomination_row (c_id (createdCountries ! 5)) (js ''100'') (js ''A$100'')
       (js ''^[A-Z]{2}'' @ BSL # js ''d{8}$'') 10
       (js ''2 Letters + 8 digits''),
     denomination_row (c_id (createdCountries ! 6)) (js ''10'') (js ''CHF 10'')
       (js ''^'' @ BSL # js ''d{2}[A-Z]'' @ BSL # js ''d{7}$'') 10
       (js ''2 digits + Letter + 7 digits''),
     denomination_row (c_id (createdCountries ! 6)) (js ''20'') (js ''CHF 20'')
       (js ''^'' @ BSL # js ''d{2}[A-Z]'' @ BSL # js ''d{7}$'') 10
       (js ''2 digits + Letter + 7 digits''),
     denomination_row (c_id (createdCountries ! 6)) (js ''50'') (js ''CHF 50'')
       (js ''^'' @ BSL # js ''d{2}[A-Z]'' @ BSL # js ''d{7}$'') 10
       (js ''2 digits + Letter + 7 digits''),
     denomination_row (c_id (createdCountries ! 6)) (js ''100'') (js ''CHF 100'')
       (js ''^'' @ BSL # js ''d{2}[A-Z]'' @ BSL # js ''d{7}$'') 10
       (js ''2 digits + Letter + 7 digits''),
     denomination_row (c_id (createdCountries ! 6)) (js ''200'') (js ''CHF 200'')
       (js ''^'' @ BSL # js ''d{2}[A-Z]'' @ BSL # js ''d{7}$'') 10
       (js ''2 digits + Letter + 7 digits''),
     denomination_row (c_id (createdCountries ! 6)) (js ''1000'') (js ''CHF 1000'')
       (js ''^'' @ BSL # js ''d{2}[A-Z]'' @ BSL # js ''d{7}$'') 10
       (js ''2 digits + Letter + 7 digits''),
     denomination_row (c_id (createdCountries ! 19)) (js ''10'') (js ''R10'')
       (js ''^[A-Z]{2}'' @ BSL # js ''d{7}$'') 9
       (js ''2 Letters + 7 digits''),
     denomination_row (c_id (createdCountries ! 19)) (js ''20'') (js ''R20'')
       (js ''^[A-Z]{2}'' @ BSL # js ''d{7}$'') 9
       (js ''2 Letters + 7 digits''),
     denomination_row (c_id (createdCountries ! 19)) (js ''50'') (js ''R50'')
       (js ''^[A-Z]{2}'' @ BSL # js ''d{7}$'') 9
       (js ''2 Letters + 7 digits''),
     denomination_row (c_id (createdCountries ! 19)) (js ''100'') (js ''R100'')
       (js ''^[A-Z]{2}'' @ BSL # js ''d{7}$'') 9
       (js ''2 Letters + 7 digits''),
     denomination_row (c_id (createdCountries ! 19)) (js ''200'') (js ''R200'')
       (js ''^[A-Z]{2}'' @ BSL # js ''d{7}$'') 9
       (js ''2 Letters + 7 digits''),
     denomination_row (c_id (createdCountries ! 20)) (js ''20'') (js ''Rs 20'')
       (js ''^[A-Z]'' @ BSL # js ''d{6}$'') 7
       (js ''Letter + 6 digits''),
     denomination_row (c_id (createdCountries ! 20)) (js ''50'') (js ''Rs 50'')
       (js ''^[A-Z]'' @ BSL # js ''d{6}$'') 7
       (js ''Letter + 6 digits''),
     denomination_row (c_id (createdCountries ! 20)) (js ''100'') (js ''Rs 100'')
       (js ''^[A-Z]'' @ BSL # js ''d{6}$'') 7
       (js ''Letter + 6 digits''),
     denomination_row (c_id (createdCountries ! 20)) (js ''500'') (js ''Rs 500'')
       (js ''^[A-Z]'' @ BSL # js ''d{6}$'') 7
       (js ''Letter + 6 digits''),
     denomination_row (c_id (createdCountries ! 20)) (js ''1000'') (js ''Rs 1000'')
       (js ''^[A-Z]'' @ BSL # js ''d{6}$'') 7
       (js ''Letter + 6 digits''),
     denomination_row (c_id (createdCountries ! 20)) (js ''5000'') (js ''Rs 5000'')
       (js ''^[A-Z]'' @ BSL # js ''d{6}$'') 7
       (js ''Letter + 6 digits'')]"

text \<open>
  \<open>Promise.all\<close> over the mapped rows: the inserts are taken to reach the database in the
  order of the rows, and the results come back in that order.
\<close>

fun createCountries :: "store \<Rightarrow> InsertCountry list \<Rightarrow> Country list \<times> store" where
  "createCountries st [] = ([], st)"
| "createCountries st (x # xs) =
     (let (c, st1) = createCountry st x;
          (cs, st2) = createCountries st1 xs
      in (c # cs, st2))"

fun createDenominations :: "store \<Rightarrow> InsertDenomination list \<Rightarrow> Denomination list \<times> store" where
  "createDenominations st [] = ([], st)"
| "createDenominations st (x # xs) =
     (let (d, st1) = createDenomination st x;
          (ds, st2) = createDenominations st1 xs
      in (d # ds, st2))"

definition seedInitialData :: "store \<Rightarrow> store" where
  "seedInitialData st =
     (let existingCountries = getCountries st in
      if length existingCountries > 0 then st
      else (let (createdCountries, st1) = createCountries st countryData;
                (createdDenominations, st2) =
                  createDenominations st1 (denominationData createdCountries)
            in st2))"

section \<open>Reference inputs\<close>

text \<open>
  The empty database, the body of a well-formed verify request, the row of the UK 5
  pound note as seeding stores it in the empty database, and a runtime that throws a
  SyntaxError for every pattern outside the fragment (it stands for the runtime where
  the patterns at hand are in the fragment).
\<close>

definition empty_store :: store where
  "empty_store = \<lparr>countries = [], denominations = [], verificationLogs = [],
     countries_id_seq = 0, denominations_id_seq = 0, verification_logs_id_seq = 0\<rparr>"

definition verify_request :: "jsstring \<Rightarrow> jsstring \<Rightarrow> jsstring \<Rightarrow> jsvalue" where
  "verify_request countryCode denomination serialNumber =
     JObject [(js ''countryCode'', JString countryCode),
              (js ''denomination'', JString denomination),
              (js ''serialNumber'', JString serialNumber)]"

definition uk5_rule :: Denomination where
  "uk5_rule =
     \<lparr>d_id = 8, d_countryId = 2, d_value = js ''5'', d_displayName = 0xA3 # js ''5'',
      d_serialFormat =
        js ''^[A-Z]{2}'' @ BSL # js ''d{2}'' @ BSL # js ''s'' @ BSL # js ''d{6}$'',
      d_serialLength = 11,
      d_patternDescription = js ''2 Letters + 2 digits + space + 6 digits'',
      d_isActive = True\<rparr>"

definition no_other_patterns :: other_patterns where
  "no_other_patterns = (\<lambda>src. None)"

text \<open>The nine distinct patterns of the seed rows.\<close>

definition seed_formats :: "jsstring list" where
  "seed_formats =
    [js ''^[A-L]'' @ BSL # js ''d{8}[A-Z]$'',
     js ''^[A-Z]{2}'' @ BSL # js ''d{2}'' @ BSL # js ''s'' @ BSL # js ''d{6}$'',
     js ''^[A-Z]'' @ BSL # js ''d{11}$'',
     js ''^[A-Z]'' @ BSL # js ''d{6}[A-Z]$'',
     js ''^[A-Z]{3}'' @ BSL # js ''d{7}$'',
     js ''^[A-Z]{2}'' @ BSL # js ''d{8}$'',
     js ''^'' @ BSL # js ''d{2}[A-Z]'' @ BSL # js ''d{7}$'',
     js ''^[A-Z]{2}'' @ BSL # js ''d{7}$'',
     js ''^[A-Z]'' @ BSL # js ''d{6}$'']"

text \<open>
  A verification log of 80 rows, the first 23 of them authentic, as 80 verify requests
  leave it.
\<close>

definition logs_23_of_80 :: "VerificationLog list" where
  "logs_23_of_80 =
     map (\<lambda>i. \<lparr>l_id = int i, l_countryId = 2, l_denominationId = 8,
               l_serialNumber = (if i \<le> 23 then js ''AB12 345678'' else js ''AB12345678''),
               l_isAuthentic = (i \<le> 23), l_formatValid = (i \<le> 23),
               l_lengthValid = (i \<le> 23), l_timestamp = i\<rparr>) [1 ..< 81]"

section \<open>The databases the server reaches\<close>

text \<open>
  \<open>registerRoutes\<close> seeds the database before it serves a request, and of the routes only
  \<open>POST /api/verify\<close> writes. Started on an empty database, the server reaches a database
  by seeding, by seeding again at a restart, and by answering verify requests.
\<close>

inductive reachable :: "store \<Rightarrow> bool" where
  fresh: "reachable (seedInitialData empty_store)"
| restart: "reachable st \<Longrightarrow> reachable (seedInitialData st)"
| verify: "reachable st \<Longrightarrow>
           post_api_verify other st db_now js_now body = (resp, st', calls) \<Longrightarrow>
           reachable st'"

section \<open>What the specification says, for comparison\<close>

text \<open>
  The specification's whole-string match of a serial number against a pattern, its
  character count (a surrogate pair is one character), and its success rate: the
  percentage rounded to one decimal place, on exact numbers, a half rounding up as
  \<open>Math.round\<close> does.
\<close>

fun character_count :: "jsstring \<Rightarrow> nat" where
  "character_count [] = 0"
| "character_count [c] = 1"
| "character_count (c # d # cs) =
     (if is_high_surrogate c \<and> is_low_surrogate d then 1 + character_count cs
      else 1 + character_count (d # cs))"

definition fully_matches :: "jsstring \<Rightarrow> jsstring \<Rightarrow> bool option" where
  "fully_matches serialFormat s = map_option (\<lambda>re. matches_whole re s) (RegExp serialFormat)"

definition round_1_decimal :: "rat \<Rightarrow> rat" where
  "round_1_decimal x = of_int \<lfloor>x * 10 + 1 / 2\<rfloor> / 10"

definition spec_successRate :: "nat \<Rightarrow> nat \<Rightarrow> rat" where
  "spec_successRate n m = round_1_decimal (100 * of_nat n / of_nat (n + m))"

section \<open>The rows that seeding stores\<close>

text \<open>
  The rows that a run of inserts returns, by the value of the sequence before the first
  insert.
\<close>

fun stored_countries :: "int \<Rightarrow> InsertCountry list \<Rightarrow> Country list" where
  "stored_countries n [] = []"
| "stored_countries n (x # xs) =
     \<lparr>c_id = n + 1, c_code = ic_code x, c_name = ic_name x, c_currency = ic_currency x,
      c_currencySymbol = ic_currencySymbol x\<rparr> # stored_countries (n + 1) xs"

fun stored_denominations :: "int \<Rightarrow> InsertDenomination list \<Rightarrow> Denomination list" where
  "stored_denominations n [] = []"
| "stored_denominations n (x # xs) =
     \<lparr>d_id = n + 1, d_countryId = idn_countryId x, d_value = idn_value x,
      d_displayName = idn_displayName x, d_serialFormat = idn_serialFormat x,
      d_serialLength = idn_serialLength x, d_patternDescription = idn_patternDescription x,
      d_isActive = (case idn_isActive x of None \<Rightarrow> True | Some b \<Rightarrow> b)\<rparr>
     # stored_denominations (n + 1) xs"

lemma createCountries_eq:
  "createCountries st xs =
     (stored_countries (countries_id_seq st) xs,
      st\<lparr>countries := countries st @ stored_countries (countries_id_seq st) xs,
         countries_id_seq := countries_id_seq st + int (length xs)\<rparr>)"
  by (induction xs arbitrary: st) (simp_all add: createCountry_def Let_def algebra_simps)

lemma createDenominations_eq:
  "createDenominations st xs =
     (stored_denominations (denominations_id_seq st) xs,
      st\<lparr>denominations := denominations st @ stored_denominations (denominations_id_seq st) xs,
         denominations_id_seq := denominations_id_seq st + int (length xs)\<rparr>)"
  by (induction xs arbitrary: st) (simp_all add: createDenomination_def Let_def algebra_simps)

lemma length_countryData: "length countryData = 25"
  by (simp add: countryData_def)

lemma length_denominationData: "length (denominationData cs) = 49"
  by (simp add: denominationData_def)

lemma seedInitialData_fresh:
  "countries st = [] \<Longrightarrow>
   seedInitialData st =
     st\<lparr>countries := stored_countries (countries_id_seq st) countryData,
        countries_id_seq := countries_id_seq st + 25,
        denominations := denominations st @
          stored_denominations (denominations_id_seq st)
            (denominationData (stored_countries (countries_id_seq st) countryData)),
        denominations_id_seq := denominations_id_seq st + 49\<rparr>"
  by (simp add: seedInitialData_def getCountries_def createCountries_eq
      createDenominations_eq length_countryData length_denominationData)

lemma c_id_stored_countries:
  "i < length xs \<Longrightarrow> c_id (stored_countries n xs ! i) = n + 1 + int i"
proof (induction xs arbitrary: n i)
  case Nil
  then show ?case by simp
next
  case (Cons x xs)
  then show ?case by (cases i) simp_all
qed

lemma stored_countries_empty: "stored_countries n xs = [] \<longleftrightarrow> xs = []"
  by (cases xs) simp_all

lemma length_stored_denominations: "length (stored_denominations n xs) = length xs"
  by (induction xs arbitrary: n) simp_all

lemma serialFormat_stored_denominations:
  "map d_serialFormat (stored_denominations n xs) = map idn_serialFormat xs"
  by (induction xs arbitrary: n) simp_all

lemma seeded_countries_codes:
  "map c_code (countries (seedInitialData empty_store)) = map ic_code countryData"
proof -
  have "map c_code (stored_countries n xs) = map ic_code xs" for n xs
    by (induction xs arbitrary: n) simp_all
  then show ?thesis by (simp add: seedInitialData_fresh empty_store_def)
qed

lemma to_well_formed_id:
  "\<forall>c \<in> set s. \<not> is_surrogate c \<Longrightarrow> to_well_formed s = s"
  by (induction s rule: to_well_formed.induct) (simp_all add: is_surrogate_def)

lemma character_count_no_surrogates:
  "\<forall>c \<in> set s. \<not> is_surrogate c \<Longrightarrow> character_count s = length s"
  by (induction s rule: character_count.induct) (simp_all add: is_surrogate_def)

lemma pg_text_UK: "pg_text (js ''UK'') = Inr (js ''UK'')"
  by (simp add: pg_text_def js_def is_surrogate_def is_high_surrogate_def
      is_low_surrogate_def)

lemma pg_text_5: "pg_text (js ''5'') = Inr (js ''5'')"
  by (simp add: pg_text_def js_def is_surrogate_def is_high_surrogate_def
      is_low_surrogate_def)

lemma pg_text_ZZ: "pg_text (js ''ZZ'') = Inr (js ''ZZ'')"
  by (simp add: pg_text_def js_def is_surrogate_def is_high_surrogate_def
      is_low_surrogate_def)

lemma seeded_UK:
  "getCountryByCode (seedInitialData empty_store) (js ''UK'') =
     Inr (Some \<lparr>c_id = 2, c_code = js ''UK'', c_name = js ''United Kingdom'',
                c_currency = js ''GBP'', c_currencySymbol = [0xA3]\<rparr>)"
  unfolding getCountryByCode_def pg_text_UK
  by (simp add: seedInitialData_fresh empty_store_def countryData_def country_row_def js_def)

lemma seeded_UK5:
  "getDenomination (seedInitialData empty_store) 2 (js ''5'') = Inr (Some uk5_rule)"
  unfolding getDenomination_def pg_text_5
  by (simp add: seedInitialData_fresh empty_store_def uk5_rule_def
      denominationData_def denomination_row_def c_id_stored_countries length_countryData
      js_def)

lemma seeded_has_countries: "countries (seedInitialData empty_store) \<noteq> []"
proof -
  have "map c_code (countries (seedInitialData empty_store)) \<noteq> []"
    unfolding seeded_countries_codes using length_countryData by auto
  then show ?thesis by auto
qed

section \<open>Facts about matching\<close>

lemma regexp_test_iff:
  "regexp_test re s \<longleftrightarrow> (\<exists>i \<le> length s. match_terms re s i \<noteq> [])"
  unfolding regexp_test_def list_ex_iff
  by (auto simp del: upt_Suc simp add: less_Suc_eq_le)

lemma match_terms_append:
  "set (match_terms (ts @ us) s i) = (\<Union>j \<in> set (match_terms ts s i). set (match_terms us s j))"
  by (induction ts arbitrary: i) auto

lemma match_terms_ends_at_end:
  "k \<in> set (match_terms (ts @ [Assert_end]) s i) \<Longrightarrow> k = length s"
  by (auto simp: match_terms_append split: if_splits)

lemma anchored_test_is_whole:
  "regexp_test (Assert_start # body @ [Assert_end]) s
     = matches_whole (Assert_start # body @ [Assert_end]) s"
proof
  assume "regexp_test (Assert_start # body @ [Assert_end]) s"
  then obtain i where "match_terms (Assert_start # body @ [Assert_end]) s i \<noteq> []"
    by (auto simp: regexp_test_iff)
  then have ne: "match_terms (body @ [Assert_end]) s 0 \<noteq> []"
    by (auto split: if_splits)
  then obtain k where k: "k \<in> set (match_terms (body @ [Assert_end]) s 0)"
    by (cases "match_terms (body @ [Assert_end]) s 0") auto
  then have "k = length s" by (rule match_terms_ends_at_end)
  with k show "matches_whole (Assert_start # body @ [Assert_end]) s"
    by (simp add: matches_whole_def)
next
  assume "matches_whole (Assert_start # body @ [Assert_end]) s"
  then have "match_terms (Assert_start # body @ [Assert_end]) s 0 \<noteq> []"
    by (auto simp: matches_whole_def)
  then show "regexp_test (Assert_start # body @ [Assert_end]) s"
    unfolding regexp_test_iff by blast
qed

lemma run_length_ge_iff:
  "n \<le> run_length a s i \<longleftrightarrow> (\<forall>j<n. i + j < length s \<and> atom_matches a (s ! (i + j)))"
proof
  assume n: "n \<le> run_length a s i"
  show "\<forall>j<n. i + j < length s \<and> atom_matches a (s ! (i + j))"
  proof (intro allI impI)
    fix j assume "j < n"
    with n have j: "j < length (takeWhile (atom_matches a) (drop i s))"
      by (simp add: run_length_def)
    also have "\<dots> \<le> length (drop i s)" by (rule length_takeWhile_le)
    finally have b: "i + j < length s" by simp
    from j have "takeWhile (atom_matches a) (drop i s) ! j
                   \<in> set (takeWhile (atom_matches a) (drop i s))"
      by (rule nth_mem)
    then have "atom_matches a (takeWhile (atom_matches a) (drop i s) ! j)"
      by (rule set_takeWhileD [THEN conjunct2])
    moreover from j have "takeWhile (atom_matches a) (drop i s) ! j = drop i s ! j"
      by (rule takeWhile_nth)
    ultimately have "atom_matches a (drop i s ! j)" by simp
    with b show "i + j < length s \<and> atom_matches a (s ! (i + j))" by simp
  qed
next
  assume a: "\<forall>j<n. i + j < length s \<and> atom_matches a (s ! (i + j))"
  show "n \<le> run_length a s i"
  proof (rule ccontr)
    let ?m = "length (takeWhile (atom_matches a) (drop i s))"
    assume "\<not> n \<le> run_length a s i"
    then have m: "?m < n" by (simp add: run_length_def)
    with a have b: "i + ?m < length s" and p: "atom_matches a (s ! (i + ?m))" by blast+
    from b have "?m < length (drop i s)" by simp
    then have "\<not> atom_matches a (drop i s ! ?m)" by (rule nth_length_takeWhile)
    with b p show False by simp
  qed
qed

lemma match_term_exact:
  "set (match_term (Repeat a n (Some n)) s i) = (if n \<le> run_length a s i then {i + n} else {})"
  by (auto simp: Let_def min_def)

lemma seed_formats_parse:
  "\<forall>f \<in> set seed_formats.
     hd f = 0x5E \<and> last f = 0x24 \<and>
     (case RegExp f of
        Some (Assert_start # ts) \<Rightarrow> ts \<noteq> [] \<and> last ts = Assert_end
      | _ \<Rightarrow> False)"
  by code_simp

lemma seed_rows_formats:
  "idn_serialFormat ` set (denominationData cs) \<subseteq> set seed_formats"
  by (simp add: denominationData_def denomination_row_def seed_formats_def)

lemma seeded_denominations_formats:
  assumes "d \<in> set (denominations (seedInitialData empty_store))"
  shows "d_serialFormat d \<in> set seed_formats"
proof -
  define rows where "rows = denominationData (stored_countries 0 countryData)"
  from assms have "d \<in> set (stored_denominations 0 rows)"
    by (simp add: seedInitialData_fresh empty_store_def rows_def)
  then have "d_serialFormat d \<in> set (map d_serialFormat (stored_denominations 0 rows))"
    by simp
  then have "d_serialFormat d \<in> idn_serialFormat ` set rows"
    by (simp add: serialFormat_stored_denominations)
  with seed_rows_formats show ?thesis unfolding rows_def by blast
qed

lemma parse_verify_request:
  "verifyBanknoteSchema_parse (verify_request cc dn sn) =
     (if 2 \<le> length cc \<and> length cc \<le> 3 \<and> 1 \<le> length dn \<and> 1 \<le> length sn \<and> length sn \<le> 20
      then Some (cc, dn, sn) else None)"
  by (simp add: verify_request_def verifyBanknoteSchema_parse_def property_def z_string_def
      js_def)

lemma Math_round_0: "Math_round 0 = 0"
  by code_simp

lemma uk5_rule_fields:
  "d_id uk5_rule = 8" "d_displayName uk5_rule = 0xA3 # js ''5''"
  "d_patternDescription uk5_rule = js ''2 Letters + 2 digits + space + 6 digits''"
  "d_serialLength uk5_rule = 11"
  by (simp_all add: uk5_rule_def)

lemma RegExp_uk5:
  "RegExp (d_serialFormat uk5_rule) =
     Some (Assert_start #
           [Repeat (Bracket [(0x41, 0x5A)]) 2 (Some 2), Repeat Esc_d 2 (Some 2),
            Repeat Esc_s 1 (Some 1), Repeat Esc_d 6 (Some 6)] @ [Assert_end])"
  by code_simp

lemma seed_format_parses:
  assumes "f \<in> set seed_formats"
  shows "\<exists>body. RegExp f = Some (Assert_start # body @ [Assert_end])"
proof -
  from assms seed_formats_parse obtain ts where
    r: "RegExp f = Some (Assert_start # ts)" and t: "ts \<noteq> []" "last ts = Assert_end"
    by (fastforce split: option.splits list.splits rterm.splits)
  from t have "ts = butlast ts @ [Assert_end]"
    by (metis append_butlast_last_id)
  with r show ?thesis by metis
qed

text \<open>The check on a rule whose pattern is in the fragment.\<close>

lemma checkSerial_fragment:
  assumes "RegExp (d_serialFormat d) = Some re"
  shows "checkSerial other d s =
           Some \<lparr>formatValid = regexp_test re s,
                 lengthValid = (int (length s) = d_serialLength d),
                 isAuthentic = (regexp_test re s \<and> int (length s) = d_serialLength d)\<rparr>"
  using assms by (simp add: checkSerial_def new_RegExp_def Let_def)

lemma check_uk_space:
  "checkSerial other uk5_rule (js ''AB12 345678'') =
     Some \<lparr>formatValid = True, lengthValid = True, isAuthentic = True\<rparr>"
proof -
  have "checkSerial no_other_patterns uk5_rule (js ''AB12 345678'') =
     Some \<lparr>formatValid = True, lengthValid = True, isAuthentic = True\<rparr>"
    by code_simp
  then show ?thesis
    by (simp add: checkSerial_fragment [OF RegExp_uk5])
qed

lemma check_uk_tab:
  "checkSerial other uk5_rule (js ''AB12'' @ 0x09 # js ''345678'') =
     Some \<lparr>formatValid = True, lengthValid = True, isAuthentic = True\<rparr>"
proof -
  have "checkSerial no_other_patterns uk5_rule (js ''AB12'' @ 0x09 # js ''345678'') =
     Some \<lparr>formatValid = True, lengthValid = True, isAuthentic = True\<rparr>"
    by code_simp
  then show ?thesis
    by (simp add: checkSerial_fragment [OF RegExp_uk5])
qed

lemma check_uk_short:
  "checkSerial other uk5_rule (js ''AB12345678'') =
     Some \<lparr>formatValid = False, lengthValid = False, isAuthentic = False\<rparr>"
proof -
  have "checkSerial no_other_patterns uk5_rule (js ''AB12345678'') =
     Some \<lparr>formatValid = False, lengthValid = False, isAuthentic = False\<rparr>"
    by code_simp
  then show ?thesis
    by (simp add: checkSerial_fragment [OF RegExp_uk5])
qed

lemma check_uk_pair:
  "checkSerial other uk5_rule (js ''AB12 3456'' @ [0xD83D, 0xDE00]) =
     Some \<lparr>formatValid = False, lengthValid = True, isAuthentic = False\<rparr>"
proof -
  have "checkSerial no_other_patterns uk5_rule (js ''AB12 3456'' @ [0xD83D, 0xDE00]) =
     Some \<lparr>formatValid = False, lengthValid = True, isAuthentic = False\<rparr>"
    by code_simp
  then show ?thesis
    by (simp add: checkSerial_fragment [OF RegExp_uk5])
qed

lemma getDenomination_member:
  assumes "getDenomination st countryId v = Inr (Some d)"
  shows "d \<in> set (denominations st)"
proof -
  from assms obtain v' ds where
    "filter (\<lambda>d. d_countryId d = countryId \<and> d_value d = v') (denominations st) = d # ds"
    by (auto simp: getDenomination_def split: sum.splits list.splits)
  then have "d \<in> set (filter (\<lambda>d. d_countryId d = countryId \<and> d_value d = v')
                        (denominations st))"
    by simp
  then show ?thesis by simp
qed

text \<open>
  A well-formed verify request for the UK 5 pound note on the freshly seeded database,
  with a serial number without U+0000: the response carries the verdict of \<open>checkSerial\<close>
  on the seeded rule.
\<close>

lemma verify_seeded_uk5:
  assumes "checkSerial other uk5_rule sn = Some v" and "1 \<le> length sn" and "length sn \<le> 20"
    and "0 \<notin> set sn"
  shows "fst (post_api_verify other (seedInitialData empty_store) db_now js_now
                (verify_request (js ''UK'') (js ''5'') sn)) =
         Json \<lparr>r_country = js ''United Kingdom'', r_currency = js ''GBP'',
               r_denomination = 0xA3 # js ''5'', r_serialNumber = sn,
               r_formatValid = formatValid v, r_lengthValid = lengthValid v,
               r_isAuthentic = isAuthentic v,
               r_patternDescription = js ''2 Letters + 2 digits + space + 6 digits'',
               r_timestamp = js_now\<rparr>"
proof -
  have p: "verifyBanknoteSchema_parse (verify_request (js ''UK'') (js ''5'') sn)
             = Some (js ''UK'', js ''5'', sn)"
    using assms(2,3) by (simp add: parse_verify_request js_def)
  show ?thesis
    by (simp add: post_api_verify_def p seeded_UK seeded_UK5 assms(1,4)
        createVerificationLog_def pg_text_def Let_def uk5_rule_fields split: prod.splits)
qed

text \<open>A verify request leaves the two reference tables as they are.\<close>

lemma post_api_verify_tables:
  assumes "post_api_verify other st db_now js_now body = (resp, st', calls)"
  shows "countries st' = countries st \<and> denominations st' = denominations st"
  using assms
  by (auto simp: post_api_verify_def createVerificationLog_def Let_def
      split: option.splits sum.splits prod.splits)

lemma reachable_tables:
  "reachable st \<Longrightarrow>
   countries st = countries (seedInitialData empty_store) \<and>
   denominations st = denominations (seedInitialData empty_store)"
proof (induction rule: reachable.induct)
  case fresh
  show ?case by simp
next
  case (restart st)
  then have "countries st \<noteq> []" using seeded_has_countries by simp
  then have "seedInitialData st = st" by (simp add: seedInitialData_def getCountries_def)
  with restart show ?case by simp
next
  case (verify st other db_now js_now body resp st' calls)
  from post_api_verify_tables [OF verify.hyps(2)] verify.IH show ?case by simp
qed

text \<open>
  What the seeded UK pattern asks of a serial number it accepts: eleven code units, the
  fifth of them in the class \<open>\s\<close>.
\<close>

lemma uk5_formatValid_requires:
  assumes "checkSerial other uk5_rule s = Some v" and "formatValid v"
  shows "length s = 11 \<and> is_white_space (s ! 4)"
proof -
  let ?body = "[Repeat (Bracket [(0x41, 0x5A)]) 2 (Some 2), Repeat Esc_d 2 (Some 2),
            Repeat Esc_s 1 (Some 1), Repeat Esc_d 6 (Some 6)]"
  from assms have "regexp_test (Assert_start # ?body @ [Assert_end]) s"
    by (auto simp: checkSerial_fragment [OF RegExp_uk5])
  then have "matches_whole (Assert_start # ?body @ [Assert_end]) s"
    by (simp only: anchored_test_is_whole)
  then have "length s \<in> set (match_terms (Assert_start # ?body @ [Assert_end]) s 0)"
    by (simp only: matches_whole_def)
  then have "length s = 11 \<and> 1 \<le> run_length Esc_s s (Suc (Suc (Suc (Suc 0))))"
    by (simp add: match_term_exact del: match_term.simps(3) split: if_splits)
  then have "length s = 11 \<and> 1 \<le> run_length Esc_s s 4"
    by (simp add: numeral_eq_Suc)
  then show ?thesis
    by (simp add: run_length_ge_iff)
qed

text \<open>The three counts of \<open>getVerificationStats\<close>, on every log.\<close>

lemma stats_counts:
  "totalVerified (getVerificationStats st) = int (length (verificationLogs st))"
  "authentic (getVerificationStats st) = int (length (filter l_isAuthentic (verificationLogs st)))"
  "suspicious (getVerificationStats st) =
     int (length (filter (\<lambda>l. \<not> l_isAuthentic l) (verificationLogs st)))"
proof -
  have "length (filter l_isAuthentic xs) + length (filter (\<lambda>l. \<not> l_isAuthentic l) xs)
          = length xs"
    for xs :: "VerificationLog list"
    by (rule sum_length_filter_compl)
  then have "int (length xs) - int (length (filter l_isAuthentic xs))
      = int (length (filter (\<lambda>l. \<not> l_isAuthentic l) xs))" for xs :: "VerificationLog list"
    by (metis add_diff_cancel_left' of_nat_add)
  then show "suspicious (getVerificationStats st) =
     int (length (filter (\<lambda>l. \<not> l_isAuthentic l) (verificationLogs st)))"
    by (simp add: getVerificationStats_def Let_def)
qed (simp_all add: getVerificationStats_def Let_def)

section \<open>The claims\<close>

text \<open>
  C1. Every verify request that reaches the verification step (the handler answers with
  the JSON result) has \<open>isAuthentic\<close> equal to the conjunction of \<open>formatValid\<close> and
  \<open>lengthValid\<close>, in the response and in the log entry the request appends; so it is
  never true when one of the flags is false.
\<close>

theorem verify_isAuthentic_conjunction:
  assumes "post_api_verify other st db_now js_now body = (Json r, st', calls)"
  shows "r_isAuthentic r = (r_formatValid r \<and> r_lengthValid r) \<and>
         (\<exists>log. verificationLogs st' = verificationLogs st @ [log] \<and>
                l_isAuthentic log = (l_formatValid log \<and> l_lengthValid log) \<and>
                l_isAuthentic log = r_isAuthentic r \<and>
                l_formatValid log = r_formatValid r \<and>
                l_lengthValid log = r_lengthValid r)"
  using assms
  by (auto simp: post_api_verify_def checkSerial_def createVerificationLog_def Let_def
      split: option.splits prod.splits sum.splits)

theorem verify_isAuthentic_conjunction_witness:
  "\<exists>r st' calls.
     post_api_verify no_other_patterns (seedInitialData empty_store) 5 7
       (verify_request (js ''UK'') (js ''5'') (js ''AB12 345678'')) = (Json r, st', calls) \<and>
     r_isAuthentic r \<and> r_formatValid r \<and> r_lengthValid r \<and>
     (\<exists>log. verificationLogs st' = verificationLogs (seedInitialData empty_store) @ [log] \<and>
            l_isAuthentic log \<and> l_formatValid log \<and> l_lengthValid log)"
proof -
  have len: "1 \<le> length (js ''AB12 345678'')" "length (js ''AB12 345678'') \<le> 20"
    "0 \<notin> set (js ''AB12 345678'')"
    by (simp_all add: js_def)
  obtain x st' calls where e:
    "post_api_verify no_other_patterns (seedInitialData empty_store) 5 7
       (verify_request (js ''UK'') (js ''5'') (js ''AB12 345678'')) = (x, st', calls)"
    by (rule prod_cases3)
  from verify_seeded_uk5 [OF check_uk_space [of no_other_patterns] len, of 5 7] e obtain r where
    x: "x = Json r" and r: "r_isAuthentic r" "r_formatValid r" "r_lengthValid r"
    by simp
  from verify_isAuthentic_conjunction [OF e [unfolded x]] r e x
  show ?thesis by blast
qed

text \<open>
  C2. For every denomination rule that a database reached by the server holds and every
  candidate serial number, the check runs and \<open>formatValid\<close> is true exactly if the whole
  serial number matches the rule's \<open>serialFormat\<close>: the stored patterns are the seeded
  ones, each written with both anchors, so the search that \<open>test\<close> runs is a whole-string
  match.
\<close>

theorem formatValid_whole_match:
  assumes "reachable st" and "d \<in> set (denominations st)"
  shows "\<exists>v. checkSerial other d s = Some v \<and>
             fully_matches (d_serialFormat d) s = Some (formatValid v)"
proof -
  from reachable_tables [OF assms(1)] assms(2)
  have "d \<in> set (denominations (seedInitialData empty_store))" by simp
  then have "d_serialFormat d \<in> set seed_formats"
    by (rule seeded_denominations_formats)
  then obtain body where
    r: "RegExp (d_serialFormat d) = Some (Assert_start # body @ [Assert_end])"
    using seed_format_parses by blast
  from checkSerial_fragment [OF r, of other s] anchored_test_is_whole [of body s] r
  show ?thesis by (simp add: fully_matches_def)
qed

theorem formatValid_whole_match_witness:
  "reachable (seedInitialData empty_store)
   \<and> uk5_rule \<in> set (denominations (seedInitialData empty_store))
   \<and> checkSerial no_other_patterns uk5_rule (js ''AB12 345678'') =
       Some \<lparr>formatValid = True, lengthValid = True, isAuthentic = True\<rparr>
   \<and> fully_matches (d_serialFormat uk5_rule) (js ''AB12 345678'') = Some True
   \<and> checkSerial no_other_patterns uk5_rule (js ''AB12 345678X'') =
       Some \<lparr>formatValid = False, lengthValid = False, isAuthentic = False\<rparr>
   \<and> fully_matches (d_serialFormat uk5_rule) (js ''AB12 345678X'') = Some False"
proof -
  have m: "uk5_rule \<in> set (denominations (seedInitialData empty_store))"
    using seeded_UK5 by (rule getDenomination_member)
  have c: "checkSerial no_other_patterns uk5_rule (js ''AB12 345678X'') =
       Some \<lparr>formatValid = False, lengthValid = False, isAuthentic = False\<rparr>"
    by code_simp
  from formatValid_whole_match [OF reachable.fresh m, of no_other_patterns "js ''AB12 345678''"]
    formatValid_whole_match [OF reachable.fresh m, of no_other_patterns "js ''AB12 345678X''"]
    check_uk_space [of no_other_patterns] c m reachable.fresh
  show ?thesis by simp
qed

text \<open>
  C3, at a log of 23 authentic and 57 other entries: the counts are 80, 23 and 57, and
  the rate is 28.75 percent, which the specification rounds to 28.8. The code divides
  first, in binary floating point: \<open>(23 / 80) * 100 * 10\<close> is \<open>287.49999999999994\<close>,
  \<open>Math.round\<close> gives 287, and the success rate is the number 28.7.
\<close>

theorem stats_successRate_23_of_80:
  "getVerificationStats (empty_store\<lparr>verificationLogs := logs_23_of_80\<rparr>) =
     \<lparr>totalVerified = 80, authentic = 23, suspicious = 57, successRate = fl (287 / 10)\<rparr>
   \<and> spec_successRate 23 57 = 288 / 10
   \<and> fl (287 / 10) < 2875 / 100 \<and> fl (287 / 10) \<noteq> fl (288 / 10)"
  by code_simp

text \<open>
  C4. On an empty verification log \<open>getVerificationStats\<close> returns 0 for the total, the
  authentic and the suspicious count and for the success rate: the guard keeps the
  division from running.
\<close>

theorem stats_empty_log:
  "verificationLogs st = [] \<Longrightarrow>
   getVerificationStats st =
     \<lparr>totalVerified = 0, authentic = 0, suspicious = 0, successRate = 0\<rparr>"
  by (simp add: getVerificationStats_def num_div_def num_mul_def fl_def Math_round_0)

theorem stats_empty_log_witness:
  "verificationLogs empty_store = [] \<and>
   getVerificationStats empty_store =
     \<lparr>totalVerified = 0, authentic = 0, suspicious = 0, successRate = 0\<rparr>"
  using stats_empty_log [of empty_store] by (simp add: empty_store_def)

text \<open>
  C5, as stated: \<open>lengthValid\<close> is true exactly if the character count of the serial
  number equals \<open>serialLength\<close>. The code compares \<open>.length\<close>, which counts UTF-16 code
  units: a serial number of ten characters, the last of them U+1F600, has length 11 and
  passes the length check of the seeded UK rule, one character short of its length 11.
\<close>

theorem lengthValid_character_count_counterexample:
  "fst (post_api_verify no_other_patterns (seedInitialData empty_store) 5 7
     (verify_request (js ''UK'') (js ''5'') (js ''AB12 3456'' @ [0xD83D, 0xDE00]))) =
   Json \<lparr>r_country = js ''United Kingdom'', r_currency = js ''GBP'',
         r_denomination = 0xA3 # js ''5'',
         r_serialNumber = js ''AB12 3456'' @ [0xD83D, 0xDE00],
         r_formatValid = False, r_lengthValid = True, r_isAuthentic = False,
         r_patternDescription = js ''2 Letters + 2 digits + space + 6 digits'',
         r_timestamp = 7\<rparr>
   \<and> int (character_count (js ''AB12 3456'' @ [0xD83D, 0xDE00])) = d_serialLength uk5_rule - 1"
proof -
  have len: "1 \<le> length (js ''AB12 3456'' @ [0xD83D, 0xDE00 :: code_unit])"
    "length (js ''AB12 3456'' @ [0xD83D, 0xDE00 :: code_unit]) \<le> 20"
    "0 \<notin> set (js ''AB12 3456'' @ [0xD83D, 0xDE00 :: code_unit])"
    by (simp_all add: js_def)
  have "int (character_count (js ''AB12 3456'' @ [0xD83D, 0xDE00])) = d_serialLength uk5_rule - 1"
    by code_simp
  with verify_seeded_uk5 [OF check_uk_pair [of no_other_patterns] len, of 5 7]
  show ?thesis by simp
qed

text \<open>
  C5, amended: for every rule and serial number that reach the check, \<open>lengthValid\<close> is
  true exactly if the length of the serial number in UTF-16 code units (its \<open>.length\<close>)
  equals \<open>serialLength\<close>; a serial number of length one less or one more has
  \<open>lengthValid\<close> false. For a serial number without surrogates the length is the
  character count.
\<close>

theorem lengthValid_exact:
  assumes "checkSerial other d s = Some v"
  shows "lengthValid v = (int (length s) = d_serialLength d) \<and>
         (int (length s) = d_serialLength d - 1 \<or> int (length s) = d_serialLength d + 1
            \<longrightarrow> \<not> lengthValid v) \<and>
         ((\<forall>c \<in> set s. \<not> is_surrogate c) \<longrightarrow>
            lengthValid v = (int (character_count s) = d_serialLength d))"
  using assms
  by (auto simp: checkSerial_def Let_def character_count_no_surrogates split: option.splits)

theorem lengthValid_exact_witness:
  "checkSerial no_other_patterns uk5_rule (js ''AB12345678'') =
     Some \<lparr>formatValid = False, lengthValid = False, isAuthentic = False\<rparr>
   \<and> int (length (js ''AB12345678'')) = d_serialLength uk5_rule - 1
   \<and> \<not> lengthValid \<lparr>formatValid = False, lengthValid = False, isAuthentic = False\<rparr>
   \<and> int (character_count (js ''AB12345678'')) \<noteq> d_serialLength uk5_rule"
proof -
  have ns: "\<forall>c \<in> set (js ''AB12345678''). \<not> is_surrogate c"
    by (simp add: js_def is_surrogate_def is_high_surrogate_def is_low_surrogate_def)
  have l: "int (length (js ''AB12345678'')) = d_serialLength uk5_rule - 1"
    by (simp add: js_def uk5_rule_def)
  from lengthValid_exact [OF check_uk_short [of no_other_patterns]] ns l
    check_uk_short [of no_other_patterns]
  show ?thesis by simp
qed

text \<open>
  C6, at the serial number \<open>AB12\<close>, TAB, \<open>345678\<close> for the seeded UK 5 pound rule: the
  pattern has \<open>\s\<close> at the fifth position, which a TAB matches, so the request is answered
  with all three flags true although the fifth character is not a space. The serial number
  \<open>AB12345678\<close> fails both checks, as the claim says.
\<close>

theorem uk5_accepts_tab:
  "fst (post_api_verify other (seedInitialData empty_store) db_now js_now
     (verify_request (js ''UK'') (js ''5'') (js ''AB12'' @ 0x09 # js ''345678''))) =
   Json \<lparr>r_country = js ''United Kingdom'', r_currency = js ''GBP'',
         r_denomination = 0xA3 # js ''5'',
         r_serialNumber = js ''AB12'' @ 0x09 # js ''345678'',
         r_formatValid = True, r_lengthValid = True, r_isAuthentic = True,
         r_patternDescription = js ''2 Letters + 2 digits + space + 6 digits'',
         r_timestamp = js_now\<rparr>
   \<and> (js ''AB12'' @ 0x09 # js ''345678'') ! 4 \<noteq> 0x20
   \<and> checkSerial other uk5_rule (js ''AB12345678'') =
       Some \<lparr>formatValid = False, lengthValid = False, isAuthentic = False\<rparr>"
proof -
  have len: "1 \<le> length (js ''AB12'' @ 0x09 # js ''345678'')"
    "length (js ''AB12'' @ 0x09 # js ''345678'') \<le> 20"
    "0 \<notin> set (js ''AB12'' @ 0x09 # js ''345678'')"
    by (simp_all add: js_def)
  have "(js ''AB12'' @ 0x09 # js ''345678'') ! 4 \<noteq> (0x20 :: code_unit)"
    by (simp add: js_def)
  with verify_seeded_uk5 [OF check_uk_tab [of other] len, of db_now js_now]
    check_uk_short [of other]
  show ?thesis by simp
qed

text \<open>
  C7, as stated: a verify request whose country code is the code of no stored country is
  answered with 404. A country code of two U+0000 passes the schema and is the code of no
  country, but the database rejects the parameter of the lookup, the query throws and
  the handler's \<open>catch\<close> answers with 500.
\<close>

theorem verify_unknown_country_counterexample:
  "post_api_verify no_other_patterns (seedInitialData empty_store) 5 7
     (verify_request [0, 0] (js ''5'') (js ''AB12 345678'')) =
   (Status 500 (js ''Verification failed''), seedInitialData empty_store,
    [Call_getCountryByCode [0, 0]])
   \<and> [0, 0] \<notin> set (map c_code (countries (seedInitialData empty_store)))"
proof -
  have p: "verifyBanknoteSchema_parse
             (verify_request [0, 0] (js ''5'') (js ''AB12 345678''))
           = Some ([0, 0], js ''5'', js ''AB12 345678'')"
    by (simp add: parse_verify_request js_def)
  have g: "getCountryByCode (seedInitialData empty_store) [0, 0] = Inl Invalid_byte_sequence"
    by (simp add: getCountryByCode_def pg_text_def)
  have "[0, 0] \<notin> set (map c_code (countries (seedInitialData empty_store)))"
    unfolding seeded_countries_codes
    by (simp add: countryData_def country_row_def js_def)
  then show ?thesis by (simp add: post_api_verify_def p g)
qed

text \<open>
  C7, amended: a verify request that passes the schema and whose country code, as the
  database receives it, is the code of no stored country is answered with 404 when the
  code has no U+0000 in it, and with 500 when it has; in both cases the database is
  unchanged (no log entry is created) and the only storage call is the lookup of the
  country.
\<close>

theorem verify_unknown_country_404:
  assumes "verifyBanknoteSchema_parse body = Some (countryCode, denomination, serialNumber)"
    and "\<forall>c \<in> set (countries st). c_code c \<noteq> to_well_formed countryCode"
  shows "post_api_verify other st db_now js_now body =
           (if 0 \<in> set countryCode then Status 500 (js ''Verification failed'')
            else Status 404 (js ''Country not found''),
            st, [Call_getCountryByCode countryCode])"
proof -
  from assms(2)
  have "filter (\<lambda>c. c_code c = to_well_formed countryCode) (countries st) = []"
    by (simp add: filter_empty_conv)
  then have "getCountryByCode st countryCode =
      (if 0 \<in> set countryCode then Inl Invalid_byte_sequence else Inr None)"
    by (simp add: getCountryByCode_def pg_text_def)
  with assms(1) show ?thesis by (simp add: post_api_verify_def)
qed

theorem verify_unknown_country_404_witness:
  "post_api_verify no_other_patterns (seedInitialData empty_store) 5 7
     (verify_request (js ''ZZ'') (js ''5'') (js ''AB12 345678'')) =
   (Status 404 (js ''Country not found''), seedInitialData empty_store,
    [Call_getCountryByCode (js ''ZZ'')])"
proof -
  have p: "verifyBanknoteSchema_parse
             (verify_request (js ''ZZ'') (js ''5'') (js ''AB12 345678''))
           = Some (js ''ZZ'', js ''5'', js ''AB12 345678'')"
    by (simp add: parse_verify_request js_def)
  have w: "to_well_formed (js ''ZZ'') = js ''ZZ''" and z0: "0 \<notin> set (js ''ZZ'')"
    using pg_text_ZZ by (simp_all add: pg_text_def split: if_splits)
  have z: "js ''ZZ'' \<notin> set (map c_code (countries (seedInitialData empty_store)))"
    unfolding seeded_countries_codes
    by (simp add: countryData_def country_row_def js_def)
  have n: "\<forall>c \<in> set (countries (seedInitialData empty_store)).
             c_code c \<noteq> to_well_formed (js ''ZZ'')"
  proof (intro ballI notI)
    fix c
    assume "c \<in> set (countries (seedInitialData empty_store))"
    then have "c_code c \<in> set (map c_code (countries (seedInitialData empty_store)))"
      by simp
    moreover assume "c_code c = to_well_formed (js ''ZZ'')"
    ultimately show False using z w by simp
  qed
  from verify_unknown_country_404 [OF p n, of no_other_patterns 5 7] z0
  show ?thesis by simp
qed



text \<open>
  C9. Seeding a database without countries appends 49 denomination rows, and each of
  them has a \<open>serialFormat\<close> that begins with \<open>^\<close> and ends with \<open>$\<close> and for which the
  search that the engine runs finds a match exactly if the whole string matches.
\<close>

theorem seeded_formats_anchored:
  assumes "countries st = []"
  shows "\<exists>ds. denominations (seedInitialData st) = denominations st @ ds \<and> length ds = 49 \<and>
           (\<forall>d \<in> set ds.
              hd (d_serialFormat d) = 0x5E \<and> last (d_serialFormat d) = 0x24 \<and>
              (\<exists>re. RegExp (d_serialFormat d) = Some re \<and>
                    (\<forall>s. regexp_test re s = matches_whole re s)))"
proof -
  define rows where
    "rows = denominationData (stored_countries (countries_id_seq st) countryData)"
  define ds where "ds = stored_denominations (denominations_id_seq st) rows"
  have 1: "denominations (seedInitialData st) = denominations st @ ds"
    by (simp add: seedInitialData_fresh [OF assms] ds_def rows_def)
  have 2: "length ds = 49"
    by (simp add: ds_def rows_def length_stored_denominations length_denominationData)
  have 3: "hd (d_serialFormat d) = 0x5E \<and> last (d_serialFormat d) = 0x24 \<and>
           (\<exists>re. RegExp (d_serialFormat d) = Some re \<and>
                 (\<forall>s. regexp_test re s = matches_whole re s))"
    if "d \<in> set ds" for d
  proof -
    from that have "d_serialFormat d \<in> set (map d_serialFormat ds)" by simp
    then have "d_serialFormat d \<in> idn_serialFormat ` set rows"
      by (simp add: ds_def serialFormat_stored_denominations)
    with seed_rows_formats have f: "d_serialFormat d \<in> set seed_formats"
      unfolding rows_def by blast
    with seed_formats_parse obtain ts where
      h: "hd (d_serialFormat d) = 0x5E" "last (d_serialFormat d) = 0x24"
      and r: "RegExp (d_serialFormat d) = Some (Assert_start # ts)"
      and t: "ts \<noteq> []" "last ts = Assert_end"
      by (fastforce split: option.splits list.splits rterm.splits)
    from t have "ts = butlast ts @ [Assert_end]"
      by (metis append_butlast_last_id)
    then have "\<forall>s. regexp_test (Assert_start # ts) s = matches_whole (Assert_start # ts) s"
      using anchored_test_is_whole [of "butlast ts"] by simp
    with h r show ?thesis by blast
  qed
  from 1 2 3 show ?thesis by blast
qed

theorem seeded_formats_anchored_witness:
  "uk5_rule \<in> set (denominations (seedInitialData empty_store))
   \<and> hd (d_serialFormat uk5_rule) = 0x5E \<and> last (d_serialFormat uk5_rule) = 0x24
   \<and> regexp_test
        [Assert_start, Repeat (Bracket [(0x41, 0x5A)]) 2 (Some 2), Repeat Esc_d 2 (Some 2),
         Repeat Esc_s 1 (Some 1), Repeat Esc_d 6 (Some 6), Assert_end] (js ''AB12 345678'')
      = matches_whole
        [Assert_start, Repeat (Bracket [(0x41, 0x5A)]) 2 (Some 2), Repeat Esc_d 2 (Some 2),
         Repeat Esc_s 1 (Some 1), Repeat Esc_d 6 (Some 6), Assert_end] (js ''AB12 345678'')"
proof -
  have e: "countries empty_store = []" by (simp add: empty_store_def)
  have m: "uk5_rule \<in> set (denominations (seedInitialData empty_store))"
    using seeded_UK5 by (rule getDenomination_member)
  from seeded_formats_anchored [OF e] obtain ds where
    d: "denominations (seedInitialData empty_store) = denominations empty_store @ ds"
    and a: "\<forall>d \<in> set ds.
              hd (d_serialFormat d) = 0x5E \<and> last (d_serialFormat d) = 0x24 \<and>
              (\<exists>re. RegExp (d_serialFormat d) = Some re \<and>
                    (\<forall>s. regexp_test re s = matches_whole re s))"
    by blast
  from m d have "uk5_rule \<in> set ds" by (simp add: empty_store_def)
  with a have "hd (d_serialFormat uk5_rule) = 0x5E \<and> last (d_serialFormat uk5_rule) = 0x24 \<and>
      (\<exists>re. RegExp (d_serialFormat uk5_rule) = Some re \<and>
            (\<forall>s. regexp_test re s = matches_whole re s))"
    by blast
  with RegExp_uk5 m show ?thesis by auto
qed

text \<open>
  C10. \<open>seedInitialData\<close> on a database that has a country returns the database as it
  is; so a second run, after the first, changes nothing.
\<close>

theorem seedInitialData_noop:
  "(countries st \<noteq> [] \<longrightarrow> seedInitialData st = st)
   \<and> seedInitialData (seedInitialData st) = seedInitialData st"
proof -
  have noop: "seedInitialData s = s" if "countries s \<noteq> []" for s
    using that by (simp add: seedInitialData_def getCountries_def)
  have "countries (seedInitialData st) \<noteq> []"
  proof (cases "countries st = []")
    case True
    have "countryData \<noteq> []" using length_countryData by auto
    then show ?thesis
      by (simp add: seedInitialData_fresh [OF True] stored_countries_empty)
  next
    case False
    then show ?thesis by (simp add: noop)
  qed
  then show ?thesis using noop by blast
qed

theorem seedInitialData_noop_witness:
  "countries (seedInitialData empty_store) \<noteq> []
   \<and> seedInitialData (seedInitialData empty_store) = seedInitialData empty_store"
proof -
  have "map c_code (countries (seedInitialData empty_store)) \<noteq> []"
    unfolding seeded_countries_codes using length_countryData by auto
  then have "countries (seedInitialData empty_store) \<noteq> []" by auto
  with seedInitialData_noop [of "seedInitialData empty_store"] show ?thesis by blast
qed

end
